theory Spec2Isabelle
  imports Complex_Main
begin

section \<open>Values and exceptions\<close>

text \<open>
  The streaming endpoint of \<^verbatim>\<open>main.py\<close> receives decoded JSON and never checks its
  shape, so the model keeps the whole JSON value. JSON numbers are exact rationals here:
  rounding, NaN, infinities and overflow of Python's floats are outside the model. The
  association list of an object is the item list of the decoded \<^verbatim>\<open>dict\<close> (keys
  distinct).
\<close>

datatype json =
    JNull
  | JBool bool
  | JNum rat
  | JStr string
  | JArr "json list"
  | JObj "(string \<times> json) list"

text \<open>Keys of a failed lookup: a dictionary key, a column label, or a missing (NaN) label.\<close>

datatype key = StrKey string | ColKey nat | NaNKey

text \<open>
  The exceptions the modelled code can raise. \<open>LibraryError\<close> stands for any exception
  raised inside the pandas readers, with its class name.
\<close>

datatype py_exc =
    KeyError key
  | TypeError
  | ZeroDivisionError
  | ValueError
  | FileNotFoundError string
  | LibraryError string

text \<open>\<^verbatim>\<open>msg[k]\<close>: a missing key raises KeyError, a value that is not a dict raises TypeError.\<close>

fun py_getitem :: "json \<Rightarrow> string \<Rightarrow> py_exc + json" where
  "py_getitem (JObj kvs) k =
     (case map_of kvs k of None \<Rightarrow> Inl (KeyError (StrKey k)) | Some v \<Rightarrow> Inr v)"
| "py_getitem _ k = Inl TypeError"

text \<open>
  The operand of Python's arithmetic: numbers, and booleans as 1 and 0 (\<^verbatim>\<open>bool\<close> is a
  subclass of \<^verbatim>\<open>int\<close>). Everything else makes \<^verbatim>\<open>+\<close> with a number raise TypeError.
\<close>

fun num_of :: "json \<Rightarrow> rat option" where
  "num_of (JNum r) = Some r"
| "num_of (JBool b) = Some (if b then 1 else 0)"
| "num_of _ = None"

definition py_add :: "rat \<Rightarrow> json \<Rightarrow> py_exc + rat" where
  "py_add a v = (case num_of v of None \<Rightarrow> Inl TypeError | Some r \<Rightarrow> Inr (a + r))"

text \<open>\<^verbatim>\<open>sum(...)\<close>: starts at 0 and adds from the left, failing at the first bad element.\<close>

fun sum_from :: "rat \<Rightarrow> json list \<Rightarrow> py_exc + rat" where
  "sum_from acc [] = Inr acc"
| "sum_from acc (v # vs) =
     (case py_add acc v of Inl e \<Rightarrow> Inl e | Inr acc' \<Rightarrow> sum_from acc' vs)"

definition py_sum :: "json list \<Rightarrow> py_exc + rat" where
  "py_sum vs = sum_from 0 vs"

text \<open>\<^verbatim>\<open>total / len(...)\<close>: true division by a length.\<close>

definition py_truediv :: "rat \<Rightarrow> nat \<Rightarrow> py_exc + rat" where
  "py_truediv a n = (if n = 0 then Inl ZeroDivisionError else Inr (a / of_nat n))"

section \<open>The engine state and the sample window\<close>

record sample =
  energy :: json
  temp :: json

text \<open>The two module globals: \<^verbatim>\<open>engine_data\<close> and \<^verbatim>\<open>engine_history\<close>.\<close>

record engine_state =
  engine_data :: sample
  engine_history :: "sample list"

definition maxlen :: nat where
  "maxlen = 60"

definition initial_state :: engine_state where
  "initial_state =
     \<lparr>engine_data = \<lparr>energy = JNum 500, temp = JNum 300\<rparr>, engine_history = []\<rparr>"

text \<open>
  \<^verbatim>\<open>deque(maxlen=60).append(x)\<close>: the element goes to the right end, and a deque
  that has grown past its bound drops its leftmost element.
\<close>

definition deque_append :: "'a list \<Rightarrow> 'a \<Rightarrow> 'a list" where
  "deque_append d x = (let d' = d @ [x] in if maxlen < length d' then tl d' else d')"

text \<open>The window after a sequence of appends to the empty deque.\<close>

definition pushes :: "'a list \<Rightarrow> 'a list" where
  "pushes xs = foldl deque_append [] xs"

section \<open>The streaming endpoint\<close>

record response =
  r_energy :: json
  r_temp :: json
  avg_temp :: rat
  predicted_overheat :: rat
  alert :: bool

text \<open>
  One iteration of the loop of \<^verbatim>\<open>websocket_endpoint\<close>, after the message has been
  received: the state it leaves behind, and either the exception that ends the loop or
  the payload handed to \<^verbatim>\<open>send_json\<close>. The handler does not suspend between the
  receive and the send, so the returned state is the first one another task can see.
\<close>

definition set_energy :: "json \<Rightarrow> engine_state \<Rightarrow> engine_state" where
  "set_energy v s = s\<lparr>engine_data := (engine_data s)\<lparr>energy := v\<rparr>\<rparr>"

definition set_temp :: "json \<Rightarrow> engine_state \<Rightarrow> engine_state" where
  "set_temp v s = s\<lparr>engine_data := (engine_data s)\<lparr>temp := v\<rparr>\<rparr>"

definition store_in_history :: "engine_state \<Rightarrow> engine_state" where
  "store_in_history s =
     s\<lparr>engine_history := deque_append (engine_history s)
          \<lparr>energy = energy (engine_data s), temp = temp (engine_data s)\<rparr>\<rparr>"

definition analytics :: "engine_state \<Rightarrow> py_exc + response" where
  "analytics s =
     (case py_sum (map temp (engine_history s)) of
        Inl e \<Rightarrow> Inl e
      | Inr tot \<Rightarrow>
          (case py_truediv tot (length (engine_history s)) of
             Inl e \<Rightarrow> Inl e
           | Inr avg \<Rightarrow>
               (case py_add 50 (temp (engine_data s)) of
                  Inl e \<Rightarrow> Inl e
                | Inr po \<Rightarrow>
                    Inr \<lparr>r_energy = energy (engine_data s), r_temp = temp (engine_data s),
                         avg_temp = avg, predicted_overheat = po, alert = (550 < po)\<rparr>)))"

definition handle_message :: "engine_state \<Rightarrow> json \<Rightarrow> engine_state \<times> (py_exc + response)" where
  "handle_message s msg =
     (case py_getitem msg ''energy'' of
        Inl e \<Rightarrow> (s, Inl e)
      | Inr en \<Rightarrow>
          (let s1 = set_energy en s in
           case py_getitem msg ''temp'' of
             Inl e \<Rightarrow> (s1, Inl e)
           | Inr t \<Rightarrow>
               (let s2 = set_temp t s1; s3 = store_in_history s2
                in (s3, analytics s3))))"


text \<open>
  The state is process-wide: it outlives a session and is shared by all of them. After
  the messages \<open>msgs\<close> have been handled, by whichever sessions, the state is:
\<close>

definition state_after :: "engine_state \<Rightarrow> json list \<Rightarrow> engine_state" where
  "state_after s msgs = foldl (\<lambda>st m. fst (handle_message st m)) s msgs"

section \<open>The read endpoints\<close>


text \<open>
  The average temperature that \<^verbatim>\<open>dashboard\<close> computes (the variable \<^verbatim>\<open>avg_temp\<close>):
  inside the branch for a non-empty history it is the sum over the length, otherwise 0.
\<close>

definition dashboard_avg_temp :: "engine_state \<Rightarrow> py_exc + rat" where
  "dashboard_avg_temp s =
     (if engine_history s \<noteq> [] then
        (let temps = map temp (engine_history s) in
         case py_sum temps of
           Inl e \<Rightarrow> Inl e
         | Inr tot \<Rightarrow> py_truediv tot (length temps))
      else Inr 0)"

section \<open>Notions of the specification\<close>



definition carried_sample :: "json \<Rightarrow> sample option" where
  "carried_sample msg =
     (case py_getitem msg ''energy'' of
        Inl e \<Rightarrow> None
      | Inr en \<Rightarrow>
          (case py_getitem msg ''temp'' of
             Inl e \<Rightarrow> None
           | Inr t \<Rightarrow> Some \<lparr>energy = en, temp = t\<rparr>))"


text \<open>A state with two samples in the window, used in the examples.\<close>

definition two_samples :: engine_state where
  "two_samples =
     \<lparr>engine_data = \<lparr>energy = JNum 500, temp = JNum 310\<rparr>,
      engine_history = [\<lparr>energy = JNum 500, temp = JNum 300\<rparr>,
                        \<lparr>energy = JNum 500, temp = JNum 310\<rparr>]\<rparr>"

section \<open>The dataset utilities\<close>

text \<open>
  \<^verbatim>\<open>utils/dataset_loader.py\<close> works on pandas frames read with \<^verbatim>\<open>header=None\<close>:
  the columns are labelled \<open>0, 1, \<dots>\<close> and the frame is rectangular, a short line
  being padded with missing values. A cell is a number or missing (NaN, here \<open>None\<close>).
  Numbers are exact rationals, as above. The only other column the code creates is the
  one labelled \<^verbatim>\<open>'RUL'\<close>, the field \<open>rul\<close> of a frame that has it.
\<close>

type_synonym cell = "rat option"

record dataframe =
  ncols :: nat
  df_rows :: "cell list list"
  rul :: "cell list option"

text \<open>A cell of a row; a row shorter than the frame is padded with missing values.\<close>

definition cell_at :: "cell list \<Rightarrow> nat \<Rightarrow> cell" where
  "cell_at r c = (if c < length r then r ! c else None)"

text \<open>\<^verbatim>\<open>df.shape[1]\<close>, the number of columns.\<close>

definition shape1 :: "dataframe \<Rightarrow> nat" where
  "shape1 df = ncols df + (case rul df of None \<Rightarrow> 0 | Some col \<Rightarrow> 1)"

text \<open>\<^verbatim>\<open>df[c]\<close> for an integer label: a label that is no column raises KeyError.\<close>

definition column :: "dataframe \<Rightarrow> nat \<Rightarrow> py_exc + cell list" where
  "column df c =
     (if c < ncols df then Inr (map (\<lambda>r. cell_at r c) (df_rows df))
      else Inl (KeyError (ColKey c)))"

text \<open>Sequencing of steps that may raise, and a loop that stops at the first exception.\<close>

definition exc_bind :: "py_exc + 'a \<Rightarrow> ('a \<Rightarrow> py_exc + 'b) \<Rightarrow> py_exc + 'b" where
  "exc_bind m f = (case m of Inl e \<Rightarrow> Inl e | Inr x \<Rightarrow> f x)"

fun exc_map :: "('a \<Rightarrow> py_exc + 'b) \<Rightarrow> 'a list \<Rightarrow> py_exc + 'b list" where
  "exc_map f [] = Inr []"
| "exc_map f (x # xs) =
     exc_bind (f x) (\<lambda>y. exc_bind (exc_map f xs) (\<lambda>ys. Inr (y # ys)))"

text \<open>
  The reductions pandas applies to a column skip missing values and give a missing value
  when nothing is left; \<^verbatim>\<open>np.mean\<close> over a plain list does not skip them.
\<close>

definition present :: "cell list \<Rightarrow> rat list" where
  "present cs = List.map_filter (\<lambda>c. c) cs"

definition nanmax :: "cell list \<Rightarrow> cell" where
  "nanmax cs = (case present cs of [] \<Rightarrow> None | x # xs \<Rightarrow> Some (fold max xs x))"

definition nanmin :: "cell list \<Rightarrow> cell" where
  "nanmin cs = (case present cs of [] \<Rightarrow> None | x # xs \<Rightarrow> Some (fold min xs x))"

definition nanmean :: "cell list \<Rightarrow> cell" where
  "nanmean cs =
     (case present cs of [] \<Rightarrow> None | x # xs \<Rightarrow> Some (sum_list (x # xs) / of_nat (length (x # xs))))"

definition np_mean :: "cell list \<Rightarrow> cell" where
  "np_mean cs =
     (if list_all (\<lambda>c. c \<noteq> None) cs \<and> cs \<noteq> []
      then Some (sum_list (present cs) / of_nat (length cs)) else None)"

text \<open>Subtraction; a missing operand gives a missing result.\<close>

definition cell_sub :: "cell \<Rightarrow> cell \<Rightarrow> cell" where
  "cell_sub a b = (case (a, b) of (Some x, Some y) \<Rightarrow> Some (x - y) | _ \<Rightarrow> None)"

text \<open>
  The values \<open>vs\<close> of the rows whose unit is \<open>u\<close>. A missing unit equals nothing, not
  even itself, and \<^verbatim>\<open>groupby\<close> drops it.
\<close>

definition select :: "cell list \<Rightarrow> cell \<Rightarrow> 'a list \<Rightarrow> 'a list" where
  "select us u vs = map snd (filter (\<lambda>(u', v). u' \<noteq> None \<and> u' = u) (zip us vs))"

text \<open>\<^verbatim>\<open>df_enrich.groupby(unit_id_col)[cycle_col].max()\<close>, looked up at a unit.\<close>

definition max_cycle_per_unit :: "cell list \<Rightarrow> cell list \<Rightarrow> rat \<Rightarrow> cell" where
  "max_cycle_per_unit us cs u = nanmax (select us (Some u) cs)"

text \<open>
  The inner function \<^verbatim>\<open>compute_rul\<close> on a row, given as its unit and cycle cells. A
  missing unit is no key of the grouped maxima, so the lookup raises KeyError.
\<close>

definition compute_rul :: "cell list \<Rightarrow> cell list \<Rightarrow> cell \<times> cell \<Rightarrow> py_exc + cell" where
  "compute_rul us cs row =
     (case row of
        (None, cycle) \<Rightarrow> Inl (KeyError NaNKey)
      | (Some unit, cycle) \<Rightarrow> Inr (cell_sub (max_cycle_per_unit us cs unit) cycle))"

text \<open>\<^verbatim>\<open>unique()\<close>: the distinct values in order of first appearance.\<close>

definition unique :: "'a list \<Rightarrow> 'a list" where
  "unique xs = rev (remdups (rev xs))"

text \<open>
  \<^verbatim>\<open>np.polyfit(X, y, 1)[0]\<close> is a numerical routine of numpy and a parameter of the
  model: it takes the cycles and the sensor values of the rows with a sensor reading and
  returns the slope or raises.
\<close>

type_synonym polyfit = "cell list \<Rightarrow> rat list \<Rightarrow> py_exc + cell"

text \<open>
  The body of the inner loop for one unit and one sensor: the slope appended to
  \<^verbatim>\<open>degradation_slopes\<close>, or nothing when there are fewer than two rows or fewer than
  two readings.
\<close>

definition fit_slope :: "polyfit \<Rightarrow> cell list \<Rightarrow> cell list \<Rightarrow> py_exc + cell option" where
  "fit_slope polyfit X y =
     (if 1 < length X \<and> \<not> list_all (\<lambda>c. c = None) y then
        (let valid = List.map_filter (\<lambda>(x, c). map_option (Pair x) c) (zip X y) in
         if 1 < length valid
         then exc_bind (polyfit (map fst valid) (map snd valid)) (\<lambda>slope. Inr (Some slope))
         else Inr None)
      else Inr None)"

text \<open>The two nested loops, over the units and over the sensor columns.\<close>

definition degradation_slopes ::
  "polyfit \<Rightarrow> dataframe \<Rightarrow> cell list \<Rightarrow> cell list \<Rightarrow> nat list \<Rightarrow> py_exc + cell list" where
  "degradation_slopes polyfit df us cs sensor_cols =
     exc_bind
       (exc_map
          (\<lambda>(unit_id, sensor_idx).
             exc_bind (column df sensor_idx)
               (\<lambda>ys. fit_slope polyfit (select us unit_id cs) (select us unit_id ys)))
          (List.product (unique us) sensor_cols))
       (\<lambda>slopes. Inr (List.map_filter (\<lambda>s. s) slopes))"

text \<open>
  The summary dictionary. Its key \<^verbatim>\<open>rows\<close> is the field \<open>n_rows\<close>. The mean slope is
  Python's \<^verbatim>\<open>None\<close> when no slope was collected.
\<close>

record degradation_summary =
  n_rows :: nat
  units :: nat
  mean_rul :: cell
  max_rul :: cell
  min_rul :: cell
  mean_sensor_degradation_slope :: "cell option"
  num_sensors :: nat

text \<open>
  Frames are mutable objects, so the function runs on a store: a list of frames, an
  object being its index. A reference always points into the store. \<^verbatim>\<open>df.copy()\<close>
  allocates a new object at the end, and \<^verbatim>\<open>df_enrich['RUL'] = ...\<close> writes to that
  object. An empty frame makes that assignment raise ValueError, because \<^verbatim>\<open>apply\<close>
  on an empty frame returns a frame, not a column. The result is the store left behind
  and either the exception or the summary with the reference to the enriched frame.
\<close>

type_synonym heap = "dataframe list"

definition compute_engine_degradation ::
  "polyfit \<Rightarrow> heap \<Rightarrow> nat \<Rightarrow> nat \<Rightarrow> nat \<Rightarrow> nat list option \<Rightarrow>
   heap \<times> (py_exc + degradation_summary \<times> nat)" where
  "compute_engine_degradation polyfit h df unit_id_col cycle_col sensor_cols_arg =
     (let sensor_cols =
            (case sensor_cols_arg of None \<Rightarrow> [2..<shape1 (h ! df)] | Some cols \<Rightarrow> cols);
          df_enrich = length h;
          h1 = h @ [h ! df]
      in case exc_bind (column (h1 ! df_enrich) unit_id_col) (\<lambda>us.
              exc_bind (column (h1 ! df_enrich) cycle_col) (\<lambda>cs.
                if df_rows (h1 ! df_enrich) = [] then Inl ValueError
                else exc_bind (exc_map (compute_rul us cs) (zip us cs))
                       (\<lambda>ruls. Inr (us, cs, ruls)))) of
           Inl e \<Rightarrow> (h1, Inl e)
         | Inr (us, cs, ruls) \<Rightarrow>
             (let h2 = h1[df_enrich := (h1 ! df_enrich)\<lparr>rul := Some ruls\<rparr>] in
              case degradation_slopes polyfit (h2 ! df_enrich) us cs sensor_cols of
                Inl e \<Rightarrow> (h2, Inl e)
              | Inr slopes \<Rightarrow>
                  (h2,
                   Inr (\<lparr>n_rows = length (df_rows (h2 ! df_enrich)),
                         units = length (remdups (present us)),
                         mean_rul = nanmean ruls,
                         max_rul = nanmax ruls,
                         min_rul = nanmin ruls,
                         mean_sensor_degradation_slope =
                           (if slopes \<noteq> [] then Some (np_mean slopes) else None),
                         num_sensors = length sensor_cols\<rparr>,
                        df_enrich))))"

text \<open>
  Modelled from the spec: \<^verbatim>\<open>np.polyfit\<close> is not part of the repository. The
  specification has the slope of the ordinary least-squares line of sensor value against
  cycle. Where that line is not unique (all cycles equal) or a cycle is missing, the
  result of numpy is not modelled and the slope is a missing value.
\<close>

definition ols_slope :: polyfit where
  "ols_slope X y =
     (let xs = present X; n = of_nat (length xs);
          sx = sum_list xs; sy = sum_list y;
          sxx = sum_list (map (\<lambda>x. x * x) xs);
          sxy = sum_list (map (\<lambda>(x, v). x * v) (zip xs y));
          d = n * sxx - sx * sx
      in if length xs = length X \<and> d \<noteq> 0 then Inr (Some ((n * sxy - sx * sy) / d))
         else Inr None)"

text \<open>The rows \<open>(1,1,10), (1,2,12), (1,3,14), (2,1,5)\<close> of the specification.\<close>

definition example_frame :: dataframe where
  "example_frame =
     \<lparr>ncols = 3,
      df_rows = [[Some 1, Some 1, Some 10], [Some 1, Some 2, Some 12],
                 [Some 1, Some 3, Some 14], [Some 2, Some 1, Some 5]],
      rul = None\<rparr>"















section \<open>Properties of the sample window\<close>

lemma length_deque_append:
  "length d \<le> maxlen \<Longrightarrow> length (deque_append d x) = min (Suc (length d)) maxlen"
  by (auto simp: deque_append_def Let_def)

lemma foldl_deque_append:
  "length d \<le> maxlen \<Longrightarrow>
   foldl deque_append d xs = drop (length d + length xs - maxlen) (d @ xs)"
proof (induction xs arbitrary: d)
  case Nil
  then show ?case by simp
next
  case (Cons x xs)
  let ?d = "deque_append d x"
  have len: "length ?d = min (Suc (length d)) maxlen"
    using Cons.prems by (rule length_deque_append)
  then have le: "length ?d \<le> maxlen" by simp
  have "foldl deque_append ?d xs = drop (length ?d + length xs - maxlen) (?d @ xs)"
    using le by (rule Cons.IH)
  also have "\<dots> = drop (length d + length (x # xs) - maxlen) (d @ x # xs)"
  proof (cases "Suc (length d) \<le> maxlen")
    case True
    then have "?d = d @ [x]" by (simp add: deque_append_def Let_def)
    then show ?thesis by simp
  next
    case False
    then have full: "length d = maxlen" using Cons.prems by simp
    then have d: "?d = tl (d @ [x])" by (simp add: deque_append_def Let_def)
    have pos: "0 < maxlen" by (simp add: maxlen_def)
    then obtain y ys where dy: "d = y # ys" using full by (cases d) auto
    have "?d @ xs = ys @ x # xs" using d dy by simp
    moreover have "length ?d = maxlen" using len full by simp
    ultimately show ?thesis using dy full by simp
  qed
  finally show ?case by simp
qed

lemma pushes_drop: "pushes xs = drop (length xs - maxlen) xs"
  using foldl_deque_append [of "[]" xs] by (simp add: pushes_def)

lemma history_step:
  "engine_history (fst (handle_message s m)) =
     (case carried_sample m of
        None \<Rightarrow> engine_history s
      | Some x \<Rightarrow> deque_append (engine_history s) x)"
  by (simp add: handle_message_def carried_sample_def Let_def set_energy_def set_temp_def
      store_in_history_def split: sum.splits)

lemma history_after:
  "engine_history (state_after s msgs) =
     foldl deque_append (engine_history s) (List.map_filter carried_sample msgs)"
proof (induction msgs arbitrary: s)
  case Nil
  then show ?case by (simp add: state_after_def)
next
  case (Cons m msgs)
  have "state_after s (m # msgs) = state_after (fst (handle_message s m)) msgs"
    by (simp add: state_after_def)
  then show ?case
    by (simp add: Cons.IH history_step split: option.splits)
qed

text \<open>
  Claim C1. After any sequence of appends the window holds \<open>min n 60\<close> samples, where
  \<open>n\<close> is the number of appends so far, and once more than 60 samples have been pushed
  its oldest element is the \<open>(n - 60 + 1)\<close>-th sample pushed, which is the element at
  index \<open>n - 60\<close> of the sequence counted from 0. The history of the process is such a
  window: the samples pushed are those of the messages that carry both fields.
\<close>

theorem window_length_and_oldest:
  "length (pushes xs) = min (length xs) 60 \<and>
   (60 < length xs \<longrightarrow> hd (pushes xs) = xs ! (length xs - 60)) \<and>
   engine_history (state_after initial_state msgs) =
     pushes (List.map_filter carried_sample msgs)"
proof -
  have "engine_history (state_after initial_state msgs) =
      pushes (List.map_filter carried_sample msgs)"
    by (simp add: history_after pushes_def initial_state_def)
  then show ?thesis
    by (simp add: pushes_drop maxlen_def hd_drop_conv_nth)
qed

theorem window_length_and_oldest_witness:
  "60 < length [0..<61] \<and> length (pushes [0..<61]) = 60 \<and> hd (pushes [0..<61]) = 1"
  using window_length_and_oldest [of "[0..<61]"] by simp

section \<open>Lemmas about the streaming endpoint\<close>

lemma deque_append_not_Nil: "deque_append d x \<noteq> []"
  by (cases d) (auto simp: deque_append_def Let_def maxlen_def)

lemma last_deque_append: "last (deque_append d x) = x"
  by (cases d) (auto simp: deque_append_def Let_def maxlen_def)




lemma sum_from_Inl: "sum_from acc vs = Inl e \<Longrightarrow> e = TypeError"
  by (induction vs arbitrary: acc) (auto simp: py_add_def split: option.splits)



lemma handle_message_both:
  "py_getitem msg ''energy'' = Inr en \<Longrightarrow> py_getitem msg ''temp'' = Inr t \<Longrightarrow>
   handle_message s msg =
     (store_in_history (set_temp t (set_energy en s)),
      analytics (store_in_history (set_temp t (set_energy en s))))"
  by (simp add: handle_message_def Let_def)

lemma engine_data_stored [simp]:
  "engine_data (store_in_history (set_temp t (set_energy en s))) = \<lparr>energy = en, temp = t\<rparr>"
  by (simp add: store_in_history_def set_temp_def set_energy_def)

lemma engine_history_stored [simp]:
  "engine_history (store_in_history (set_temp t (set_energy en s))) =
     deque_append (engine_history s) \<lparr>energy = en, temp = t\<rparr>"
  by (simp add: store_in_history_def set_temp_def set_energy_def)





lemma analytics_not_ZeroDivisionError:
  "engine_history s \<noteq> [] \<Longrightarrow> analytics s \<noteq> Inl ZeroDivisionError"
  unfolding analytics_def py_sum_def py_truediv_def py_add_def
  by (auto split: sum.splits option.splits dest: sum_from_Inl)



lemma handle_message_no_energy:
  "py_getitem msg ''energy'' = Inl e \<Longrightarrow> handle_message s msg = (s, Inl e)"
  by (simp add: handle_message_def)


lemma state_after_no_energy:
  "list_all (\<lambda>m. isl (py_getitem m ''energy'')) post \<Longrightarrow> state_after s post = s"
proof (induction post arbitrary: s)
  case Nil
  then show ?case by (simp add: state_after_def)
next
  case (Cons m post)
  then obtain e where "py_getitem m ''energy'' = Inl e"
    by (cases "py_getitem m ''energy''") auto
  then have "fst (handle_message s m) = s"
    by (simp add: handle_message_no_energy)
  moreover have "state_after s (m # post) = state_after (fst (handle_message s m)) post"
    by (simp add: state_after_def)
  ultimately show ?case using Cons by simp
qed


section \<open>Properties of the streaming endpoint\<close>








text \<open>
  Claim C5, as stated, does not hold at every point where the state can be observed.
  After an accepted sample, a message with \<^verbatim>\<open>energy\<close> but no \<^verbatim>\<open>temp\<close> overwrites the
  energy of \<^verbatim>\<open>engine_data\<close> and stores nothing, so the last element of the history
  differs from \<^verbatim>\<open>engine_data\<close> from then on.
\<close>

theorem update_then_push_counterexample:
  "engine_data (state_after initial_state
     [JObj [(''energy'', JNum 480), (''temp'', JNum 305)], JObj [(''energy'', JNum 9)]])
     = \<lparr>energy = JNum 9, temp = JNum 305\<rparr> \<and>
   last (engine_history (state_after initial_state
     [JObj [(''energy'', JNum 480), (''temp'', JNum 305)], JObj [(''energy'', JNum 9)]]))
     = \<lparr>energy = JNum 480, temp = JNum 305\<rparr> \<and>
   last (engine_history (state_after initial_state
     [JObj [(''energy'', JNum 480), (''temp'', JNum 305)], JObj [(''energy'', JNum 9)]]))
     \<noteq> engine_data (state_after initial_state
     [JObj [(''energy'', JNum 480), (''temp'', JNum 305)], JObj [(''energy'', JNum 9)]])"
  by (simp add: state_after_def handle_message_def initial_state_def set_energy_def
      set_temp_def store_in_history_def deque_append_def maxlen_def Let_def)

text \<open>
  Claim C5, amended. Right after every message that carries both fields,
  \<^verbatim>\<open>engine_data\<close> is that message's sample and the last element of the history equals
  it. The handler writes \<^verbatim>\<open>engine_data\<close> first and stores in the history second, and
  does not suspend in between. The equality lasts over every later message without an
  \<^verbatim>\<open>energy\<close> field.
\<close>

theorem update_then_push:
  assumes "py_getitem msg ''energy'' = Inr en" and "py_getitem msg ''temp'' = Inr t"
  shows "fst (handle_message s msg) = store_in_history (set_temp t (set_energy en s)) \<and>
         engine_data (set_temp t (set_energy en s)) = \<lparr>energy = en, temp = t\<rparr> \<and>
         engine_history (set_temp t (set_energy en s)) = engine_history s \<and>
         engine_data (fst (handle_message s msg)) = \<lparr>energy = en, temp = t\<rparr> \<and>
         engine_history (fst (handle_message s msg)) \<noteq> [] \<and>
         last (engine_history (fst (handle_message s msg))) =
           engine_data (fst (handle_message s msg)) \<and>
         (list_all (\<lambda>m. isl (py_getitem m ''energy'')) post \<longrightarrow>
            state_after (fst (handle_message s msg)) post = fst (handle_message s msg))"
  using assms
  by (simp add: handle_message_both deque_append_not_Nil last_deque_append
      state_after_no_energy)
    (simp add: set_temp_def set_energy_def)

theorem update_then_push_witness:
  "py_getitem (JObj [(''energy'', JNum 480), (''temp'', JNum 305)]) ''energy'' = Inr (JNum 480) \<and>
   py_getitem (JObj [(''energy'', JNum 480), (''temp'', JNum 305)]) ''temp'' = Inr (JNum 305) \<and>
   list_all (\<lambda>m. isl (py_getitem m ''energy'')) [JObj [(''temp'', JNum 1)]] \<and>
   engine_data (fst (handle_message two_samples
       (JObj [(''energy'', JNum 480), (''temp'', JNum 305)]))) = \<lparr>energy = JNum 480, temp = JNum 305\<rparr> \<and>
   last (engine_history (fst (handle_message two_samples
       (JObj [(''energy'', JNum 480), (''temp'', JNum 305)])))) = \<lparr>energy = JNum 480, temp = JNum 305\<rparr> \<and>
   state_after (fst (handle_message two_samples
       (JObj [(''energy'', JNum 480), (''temp'', JNum 305)]))) [JObj [(''temp'', JNum 1)]]
     = fst (handle_message two_samples (JObj [(''energy'', JNum 480), (''temp'', JNum 305)]))"
proof -
  let ?m = "JObj [(''energy'', JNum 480), (''temp'', JNum 305)]"
  have en: "py_getitem ?m ''energy'' = Inr (JNum 480)" by simp
  have t: "py_getitem ?m ''temp'' = Inr (JNum 305)" by simp
  have p: "list_all (\<lambda>m. isl (py_getitem m ''energy'')) [JObj [(''temp'', JNum 1)]]" by simp
  from update_then_push [OF en t, of two_samples "[JObj [(''temp'', JNum 1)]]"] en t p
  show ?thesis by metis
qed




text \<open>
  Claim C9. Division raises on a zero divisor, and neither the streaming handler nor the
  dashboard can reach that: the handler computes the average on the state in which the
  sample has been stored, whose history has at least one element, and the dashboard
  divides only in the branch for a non-empty history.
\<close>

theorem no_division_by_zero:
  "snd (handle_message s msg) \<noteq> Inl ZeroDivisionError \<and>
   dashboard_avg_temp s \<noteq> Inl ZeroDivisionError \<and>
   py_truediv a 0 = Inl ZeroDivisionError \<and>
   (py_getitem msg ''energy'' = Inr en \<longrightarrow> py_getitem msg ''temp'' = Inr t \<longrightarrow>
      snd (handle_message s msg) = analytics (store_in_history (set_temp t (set_energy en s))) \<and>
      1 \<le> length (engine_history (store_in_history (set_temp t (set_energy en s)))))"
proof -
  have stream: "snd (handle_message s msg) \<noteq> Inl ZeroDivisionError"
  proof (cases "py_getitem msg ''energy''")
    case (Inl e)
    then show ?thesis by (cases msg) (auto simp: handle_message_def split: option.splits)
  next
    case en: (Inr en)
    show ?thesis
    proof (cases "py_getitem msg ''temp''")
      case (Inl e)
      with en show ?thesis
        by (cases msg) (auto simp: handle_message_def Let_def split: option.splits)
    next
      case (Inr t)
      have "engine_history (store_in_history (set_temp t (set_energy en s))) \<noteq> []"
        by (simp add: deque_append_not_Nil)
      from analytics_not_ZeroDivisionError [OF this] en Inr show ?thesis
        by (simp add: handle_message_both)
    qed
  qed
  have dash: "dashboard_avg_temp s \<noteq> Inl ZeroDivisionError"
    by (auto simp: dashboard_avg_temp_def py_sum_def py_truediv_def Let_def
        split: sum.splits dest: sum_from_Inl)
  have len: "1 \<le> length (engine_history (store_in_history (set_temp t (set_energy en s))))"
    using deque_append_not_Nil [of "engine_history s" "\<lparr>energy = en, temp = t\<rparr>"]
    by (simp add: Suc_le_eq)
  from stream dash len show ?thesis
    by (simp add: handle_message_both py_truediv_def)
qed

theorem no_division_by_zero_witness:
  "py_getitem (JObj [(''energy'', JNum 1), (''temp'', JNum 2)]) ''energy'' = Inr (JNum 1) \<and>
   py_getitem (JObj [(''energy'', JNum 1), (''temp'', JNum 2)]) ''temp'' = Inr (JNum 2) \<and>
   snd (handle_message initial_state (JObj [(''energy'', JNum 1), (''temp'', JNum 2)]))
     \<noteq> Inl ZeroDivisionError \<and>
   1 \<le> length (engine_history (store_in_history (set_temp (JNum 2) (set_energy (JNum 1) initial_state))))"
proof -
  let ?m = "JObj [(''energy'', JNum 1), (''temp'', JNum 2)]"
  have en: "py_getitem ?m ''energy'' = Inr (JNum 1)" by simp
  have t: "py_getitem ?m ''temp'' = Inr (JNum 2)" by simp
  from no_division_by_zero [of initial_state ?m 0 "JNum 1" "JNum 2"] en t
  show ?thesis by blast
qed

section \<open>Lemmas about the dataset utilities\<close>














lemma example_run:
  "compute_engine_degradation ols_slope [example_frame] 0 0 1 None =
     ([example_frame, example_frame\<lparr>rul := Some [Some 2, Some 1, Some 0, Some 0]\<rparr>],
      Inr (\<lparr>n_rows = 4, units = 2, mean_rul = Some (3 / 4), max_rul = Some 2,
            min_rul = Some 0, mean_sensor_degradation_slope = Some (Some 2),
            num_sensors = 1\<rparr>, 1))"
  by (simp add: compute_engine_degradation_def example_frame_def shape1_def column_def
   cell_at_def exc_bind_def compute_rul_def max_cycle_per_unit_def select_def nanmax_def
   present_def List.map_filter_def cell_sub_def degradation_slopes_def unique_def fit_slope_def
   ols_slope_def nanmean_def nanmin_def np_mean_def Let_def upt_conv_Cons)






section \<open>Properties of the dataset utilities\<close>





text \<open>
  Claim C10. \<^verbatim>\<open>compute_engine_degradation\<close> changes no object that existed before the
  call, the input frame among them. The enriched frame it returns is a new object with
  the rows and integer columns of the input and with the added column, so it differs
  from an input that has no such column.
\<close>

theorem input_frame_not_mutated:
  assumes "df < length h"
  shows "take (length h)
           (fst (compute_engine_degradation polyfit h df unit_id_col cycle_col sensor_cols)) = h \<and>
         fst (compute_engine_degradation polyfit h df unit_id_col cycle_col sensor_cols) ! df
           = h ! df \<and>
         (\<forall>sm e. snd (compute_engine_degradation polyfit h df unit_id_col cycle_col sensor_cols)
                    = Inr (sm, e) \<longrightarrow>
            e = length h \<and> e \<noteq> df \<and>
            rul (fst (compute_engine_degradation polyfit h df unit_id_col cycle_col sensor_cols) ! e)
              \<noteq> None \<and>
            df_rows (fst (compute_engine_degradation polyfit h df unit_id_col cycle_col sensor_cols) ! e)
              = df_rows (h ! df) \<and>
            ncols (fst (compute_engine_degradation polyfit h df unit_id_col cycle_col sensor_cols) ! e)
              = ncols (h ! df) \<and>
            (rul (h ! df) = None \<longrightarrow>
               fst (compute_engine_degradation polyfit h df unit_id_col cycle_col sensor_cols) ! e
                 \<noteq> h ! df))"
proof -
  let ?res = "compute_engine_degradation polyfit h df unit_id_col cycle_col sensor_cols"
  have old: "take (length h) (fst ?res) = h \<and> fst ?res ! df = h ! df"
    using assms
    by (auto simp: compute_engine_degradation_def Let_def nth_append
        split: sum.splits prod.splits)
  have new: "e = length h \<and> e \<noteq> df \<and> rul (fst ?res ! e) \<noteq> None \<and>
      df_rows (fst ?res ! e) = df_rows (h ! df) \<and> ncols (fst ?res ! e) = ncols (h ! df)"
    if "snd ?res = Inr (sm, e)" for sm e
    using assms that
    by (auto simp: compute_engine_degradation_def Let_def nth_append
        split: sum.splits prod.splits)
  have distinct: "fst ?res ! e \<noteq> h ! df"
    if r: "snd ?res = Inr (sm, e)" and n: "rul (h ! df) = None" for sm e
  proof
    assume "fst ?res ! e = h ! df"
    then have "rul (fst ?res ! e) = rul (h ! df)" by simp
    with new [OF r] n show False by simp
  qed
  from old new distinct show ?thesis by blast
qed


theorem input_frame_not_mutated_witness:
  "(0::nat) < length [example_frame] \<and>
   fst (compute_engine_degradation ols_slope [example_frame] 0 0 1 None) ! 0 = example_frame \<and>
   snd (compute_engine_degradation ols_slope [example_frame] 0 0 1 None)
     = Inr (\<lparr>n_rows = 4, units = 2, mean_rul = Some (3 / 4), max_rul = Some 2,
             min_rul = Some 0, mean_sensor_degradation_slope = Some (Some 2),
             num_sensors = 1\<rparr>, 1) \<and>
   rul (fst (compute_engine_degradation ols_slope [example_frame] 0 0 1 None) ! 1) \<noteq> None \<and>
   rul example_frame = None \<and>
   fst (compute_engine_degradation ols_slope [example_frame] 0 0 1 None) ! 1 \<noteq> example_frame"
proof -
  have l: "(0::nat) < length [example_frame]" by simp
  have s: "snd (compute_engine_degradation ols_slope [example_frame] 0 0 1 None)
     = Inr (\<lparr>n_rows = 4, units = 2, mean_rul = Some (3 / 4), max_rul = Some 2,
             min_rul = Some 0, mean_sensor_degradation_slope = Some (Some 2),
             num_sensors = 1\<rparr>, 1)"
    using example_run by simp
  have n: "rul ([example_frame] ! 0) = None" by (simp add: example_frame_def)
  from input_frame_not_mutated [OF l, of ols_slope 0 1 None] s n l
  show ?thesis by (simp add: example_frame_def)
qed

end
